theory Spec2Isabelle
  imports Main "HOL-Library.Word"
begin

section \<open>The OAuth 2.0 device flow client (package oauth2dev)\<close>

text \<open>
  The package has two functions, \<open>RequestDeviceCode\<close> and
  \<open>WaitForDeviceAuthorization\<close>. Both talk to an HTTP server, decode a JSON body,
  and the second one sleeps between polls and reads the clock. The embedding makes
  these collaborators explicit:
  \<^item> the server is a script of replies, one per \<open>client.PostForm\<close> call;
  \<^item> a reply body is the JSON value the decoder finds in it (or nothing, when the
    body does not hold a JSON value);
  \<^item> the clock and the log of requests and sleeps are a \<open>world\<close> record that is
    passed through;
  \<^item> Go's \<open>int64\<close> is \<open>64 word\<close>, so products wrap as they do in Go;
  \<^item> a Go pointer that may be nil is an \<open>option\<close>, and reading through nil is the
    outcome \<open>Panicked\<close>.
  The arguments \<open>client\<close>, \<open>config\<close>, \<open>config.Config\<close> and \<open>code\<close> are taken to be
  non-nil, as every caller in the repository passes them.
\<close>

subsection \<open>Types of the source\<close>

type_synonym int64 = "64 word"

text \<open>
  A \<open>time.Time\<close> is the number of nanoseconds since Go's zero instant; \<open>IsZero\<close> is
  equality with 0. A \<open>time.Duration\<close> is an \<open>int64\<close> count of nanoseconds.
\<close>

type_synonym instant = int

definition Second :: int64 where
  "Second = 1000000000"

record DeviceCode =
  DeviceCode :: string
  UserCode :: string
  VerificationURL :: string
  VerificationURLComplete :: string
  ExpiresIn :: int64
  Interval :: int64

record DeviceEndpoint =
  CodeURL :: string

text \<open>The fields of \<open>oauth2.Endpoint\<close> and \<open>oauth2.Config\<close> (golang.org/x/oauth2).\<close>

record Endpoint =
  AuthURL :: string
  TokenURL :: string

record oauth2_Config =
  ClientID :: string
  ClientSecret :: string
  Endpoint :: Endpoint
  RedirectURL :: string
  Scopes :: "string list"

record Config =
  Config :: oauth2_Config
  DeviceEndpoint :: DeviceEndpoint

text \<open>
  The exported fields of \<open>oauth2.Token\<close> and their JSON keys: \<open>access_token\<close>,
  \<open>token_type\<close>, \<open>refresh_token\<close>, \<open>expiry\<close>. (Recent versions of the library add a
  field with the key \<open>expires_in\<close>; the field of the same key declared directly in
  \<open>tokenOrError\<close> is less deeply nested and takes the key.)
\<close>

record Token =
  AccessToken :: string
  TokenType :: string
  RefreshToken :: string
  Expiry :: instant

text \<open>
  \<open>tokenOrError\<close> embeds \<open>*oauth2.Token\<close>: a pointer, nil in the zero value.
\<close>

record tokenOrError =
  Token :: "Token option"
  Error :: string
  ErrorDescription :: string
  TokExpiresIn :: int64

datatype error =
    ErrAccessDenied
  | Errorf string
  | TransportError string
  | SyntaxError
  | UnmarshalTypeError string
  | TimeParseError string

subsection \<open>Collaborators: library tables, JSON, HTTP, clock\<close>

text \<open>
  \<open>http.StatusText\<close> is a table of net/http and the RFC 3339 parser belongs to the time
  package; both are parameters.
\<close>

record lib =
  StatusText :: "int \<Rightarrow> string"
  ParseTime :: "string \<Rightarrow> instant option"

datatype json =
    JNull
  | JBool bool
  | JInt int
  | JFloat
  | JString string
  | JArray "json list"
  | JObject "(string \<times> json) list"

text \<open>
  \<open>JInt n\<close> is a number literal in integer form, \<open>JFloat\<close> any number literal with a
  fraction or an exponent. The members of an object are kept in the order of the text,
  duplicates included, because the decoder stores them one after the other.
\<close>

datatype reply =
    Failure nat string
  | Response nat int "json option"

text \<open>
  \<open>Failure dt e\<close>: \<open>PostForm\<close> returns the error \<open>e\<close> after \<open>dt\<close> nanoseconds.
  \<open>Response dt status body\<close>: it returns a response with that status code, whose body
  holds the JSON value \<open>body\<close> (\<open>None\<close>: no JSON value can be read from it).
\<close>

datatype event =
    PostForm string "(string \<times> string list) list"
  | Sleep int64

record world =
  now :: instant
  trace :: "event list"

definition post :: "string \<Rightarrow> (string \<times> string list) list \<Rightarrow> nat \<Rightarrow> world \<Rightarrow> world" where
  "post url form dt w = w\<lparr>now := now w + int dt, trace := trace w @ [PostForm url form]\<rparr>"

text \<open>\<open>time.Sleep d\<close> returns at once when \<open>d\<close> is zero or negative.\<close>

definition sleep :: "int64 \<Rightarrow> world \<Rightarrow> world" where
  "sleep d w = w\<lparr>now := now w + max 0 (sint d), trace := trace w @ [Sleep d]\<rparr>"

subsection \<open>Formatting\<close>

text \<open>The verb \<open>%v\<close> on an \<open>int\<close>: decimal digits, with a minus sign when negative.\<close>

fun decimal :: "nat \<Rightarrow> string" where
  "decimal n =
    (if n < 10 then [''0123456789'' ! n]
     else decimal (n div 10) @ [''0123456789'' ! (n mod 10)])"

declare decimal.simps [simp del]

definition format_int :: "int \<Rightarrow> string" where
  "format_int i = (if i < 0 then CHR ''-'' # decimal (nat (- i)) else decimal (nat i))"

text \<open>\<open>strings.Join\<close>.\<close>

fun Join :: "string list \<Rightarrow> string \<Rightarrow> string" where
  "Join [] sep = []"
| "Join [x] sep = x"
| "Join (x # y # ys) sep = x @ sep @ Join (y # ys) sep"

subsection \<open>Decoding (encoding/json on the two structs)\<close>

text \<open>
  The decoder walks the members of the object in order. A key that names a field stores
  the value there; an unknown key is skipped; \<open>null\<close> leaves the field as it is; a value
  of the wrong kind leaves the field as it is and is remembered as the error \<open>Decode\<close>
  returns at the end (the first one wins).

  A key names a field when it is the field's JSON name as written, or when the two are
  equal after folding: ASCII letters go to upper case, and so do the two letters
  outside ASCII that Unicode folds onto ASCII ones, the long s (U+017F, bytes C5 BF in
  UTF-8) and the Kelvin sign (U+212A, bytes E2 84 AA). Every other byte stays, so a key
  with any other letter outside ASCII names none of the fields below. A key is the
  UTF-8 text of the member name.
\<close>

definition upper :: "char \<Rightarrow> char" where
  "upper c =
    (case map_of (zip ''abcdefghijklmnopqrstuvwxyz'' ''ABCDEFGHIJKLMNOPQRSTUVWXYZ'') c of
       None \<Rightarrow> c
     | Some u \<Rightarrow> u)"

fun foldName :: "string \<Rightarrow> string" where
  "foldName (a # b # c # cs) =
    (if a = CHR 0xE2 \<and> b = CHR 0x84 \<and> c = CHR 0xAA then CHR ''K'' # foldName cs
     else if a = CHR 0xC5 \<and> b = CHR 0xBF then CHR ''S'' # foldName (c # cs)
     else upper a # foldName (b # c # cs))"
| "foldName [a, b] =
    (if a = CHR 0xC5 \<and> b = CHR 0xBF then [CHR ''S''] else [upper a, upper b])"
| "foldName [a] = [upper a]"
| "foldName [] = []"

declare foldName.simps [simp del]

definition keyIs :: "string \<Rightarrow> string \<Rightarrow> bool" where
  "keyIs name k \<longleftrightarrow> k = name \<or> foldName k = foldName name"

definition saveError :: "error \<Rightarrow> error option \<Rightarrow> error option" where
  "saveError e saved = (case saved of None \<Rightarrow> Some e | Some e0 \<Rightarrow> Some e0)"

fun store_string :: "string \<Rightarrow> json \<Rightarrow> string \<Rightarrow> error + string" where
  "store_string k (JString s) old = Inr s"
| "store_string k JNull old = Inr old"
| "store_string k v old = Inl (UnmarshalTypeError k)"

definition fits_int64 :: "int \<Rightarrow> bool" where
  "fits_int64 n \<longleftrightarrow> - (2 ^ 63) \<le> n \<and> n < 2 ^ 63"

fun store_int64 :: "string \<Rightarrow> json \<Rightarrow> int64 \<Rightarrow> error + int64" where
  "store_int64 k (JInt n) old = (if fits_int64 n then Inr (word_of_int n) else Inl (UnmarshalTypeError k))"
| "store_int64 k JNull old = Inr old"
| "store_int64 k v old = Inl (UnmarshalTypeError k)"

text \<open>\<open>time.Time\<close> decodes itself: \<open>null\<close> is ignored, a string must parse as RFC 3339.\<close>

fun store_time :: "lib \<Rightarrow> string \<Rightarrow> json \<Rightarrow> instant \<Rightarrow> error + instant" where
  "store_time l k (JString s) old = (case ParseTime l s of Some t \<Rightarrow> Inr t | None \<Rightarrow> Inl (TimeParseError s))"
| "store_time l k JNull old = Inr old"
| "store_time l k v old = Inl (TimeParseError k)"

definition zero_DeviceCode :: DeviceCode where
  "zero_DeviceCode = \<lparr>DeviceCode = [], UserCode = [], VerificationURL = [],
     VerificationURLComplete = [], ExpiresIn = 0, Interval = 0\<rparr>"

definition member_DeviceCode :: "DeviceCode \<times> error option \<Rightarrow> string \<times> json \<Rightarrow> DeviceCode \<times> error option" where
  "member_DeviceCode acc m =
    (case acc of (d, saved) \<Rightarrow> case m of (k, v) \<Rightarrow>
      if keyIs ''device_code'' k then
        (case store_string k v (DeviceCode d) of
           Inl e \<Rightarrow> (d, saveError e saved) | Inr s \<Rightarrow> (d\<lparr>DeviceCode := s\<rparr>, saved))
      else if keyIs ''user_code'' k then
        (case store_string k v (UserCode d) of
           Inl e \<Rightarrow> (d, saveError e saved) | Inr s \<Rightarrow> (d\<lparr>UserCode := s\<rparr>, saved))
      else if keyIs ''verification_uri'' k then
        (case store_string k v (VerificationURL d) of
           Inl e \<Rightarrow> (d, saveError e saved) | Inr s \<Rightarrow> (d\<lparr>VerificationURL := s\<rparr>, saved))
      else if keyIs ''verification_uri_complete'' k then
        (case store_string k v (VerificationURLComplete d) of
           Inl e \<Rightarrow> (d, saveError e saved) | Inr s \<Rightarrow> (d\<lparr>VerificationURLComplete := s\<rparr>, saved))
      else if keyIs ''expires_in'' k then
        (case store_int64 k v (ExpiresIn d) of
           Inl e \<Rightarrow> (d, saveError e saved) | Inr n \<Rightarrow> (d\<lparr>ExpiresIn := n\<rparr>, saved))
      else if keyIs ''interval'' k then
        (case store_int64 k v (Interval d) of
           Inl e \<Rightarrow> (d, saveError e saved) | Inr n \<Rightarrow> (d\<lparr>Interval := n\<rparr>, saved))
      else (d, saved))"

text \<open>
  \<open>Decode\<close> into a struct: an object is stored member by member, \<open>null\<close> leaves the
  struct as it is, any other value is a type error, no value at all a syntax error.
\<close>

definition decode_DeviceCode :: "json option \<Rightarrow> error + DeviceCode" where
  "decode_DeviceCode body =
    (case body of
       None \<Rightarrow> Inl SyntaxError
     | Some (JObject ms) \<Rightarrow>
         (case foldl member_DeviceCode (zero_DeviceCode, None) ms of
            (d, None) \<Rightarrow> Inr d
          | (d, Some e) \<Rightarrow> Inl e)
     | Some JNull \<Rightarrow> Inr zero_DeviceCode
     | Some v \<Rightarrow> Inl (UnmarshalTypeError []))"

definition zero_Token :: Token where
  "zero_Token = \<lparr>AccessToken = [], TokenType = [], RefreshToken = [], Expiry = 0\<rparr>"

definition zero_tokenOrError :: tokenOrError where
  "zero_tokenOrError = \<lparr>Token = None, Error = [], ErrorDescription = [], TokExpiresIn = 0\<rparr>"

text \<open>
  The embedded pointer is allocated when the decoder first meets a key of one of the
  fields behind it, before the value is looked at, and only then.
\<close>

definition alloc_Token :: "tokenOrError \<Rightarrow> Token" where
  "alloc_Token t = (case Token t of None \<Rightarrow> zero_Token | Some tok \<Rightarrow> tok)"

definition member_tokenOrError :: "lib \<Rightarrow> tokenOrError \<times> error option \<Rightarrow> string \<times> json \<Rightarrow> tokenOrError \<times> error option" where
  "member_tokenOrError l acc m =
    (case acc of (t, saved) \<Rightarrow> case m of (k, v) \<Rightarrow>
      if keyIs ''access_token'' k then
        (let tok = alloc_Token t in
         case store_string k v (AccessToken tok) of
           Inl e \<Rightarrow> (t\<lparr>Token := Some tok\<rparr>, saveError e saved)
         | Inr s \<Rightarrow> (t\<lparr>Token := Some (tok\<lparr>AccessToken := s\<rparr>)\<rparr>, saved))
      else if keyIs ''token_type'' k then
        (let tok = alloc_Token t in
         case store_string k v (TokenType tok) of
           Inl e \<Rightarrow> (t\<lparr>Token := Some tok\<rparr>, saveError e saved)
         | Inr s \<Rightarrow> (t\<lparr>Token := Some (tok\<lparr>TokenType := s\<rparr>)\<rparr>, saved))
      else if keyIs ''refresh_token'' k then
        (let tok = alloc_Token t in
         case store_string k v (RefreshToken tok) of
           Inl e \<Rightarrow> (t\<lparr>Token := Some tok\<rparr>, saveError e saved)
         | Inr s \<Rightarrow> (t\<lparr>Token := Some (tok\<lparr>RefreshToken := s\<rparr>)\<rparr>, saved))
      else if keyIs ''expiry'' k then
        (let tok = alloc_Token t in
         case store_time l k v (Expiry tok) of
           Inl e \<Rightarrow> (t\<lparr>Token := Some tok\<rparr>, saveError e saved)
         | Inr i \<Rightarrow> (t\<lparr>Token := Some (tok\<lparr>Expiry := i\<rparr>)\<rparr>, saved))
      else if keyIs ''error'' k then
        (case store_string k v (Error t) of
           Inl e \<Rightarrow> (t, saveError e saved) | Inr s \<Rightarrow> (t\<lparr>Error := s\<rparr>, saved))
      else if keyIs ''error_description'' k then
        (case store_string k v (ErrorDescription t) of
           Inl e \<Rightarrow> (t, saveError e saved) | Inr s \<Rightarrow> (t\<lparr>ErrorDescription := s\<rparr>, saved))
      else if keyIs ''expires_in'' k then
        (case store_int64 k v (TokExpiresIn t) of
           Inl e \<Rightarrow> (t, saveError e saved) | Inr n \<Rightarrow> (t\<lparr>TokExpiresIn := n\<rparr>, saved))
      else (t, saved))"

definition decode_tokenOrError :: "lib \<Rightarrow> json option \<Rightarrow> error + tokenOrError" where
  "decode_tokenOrError l body =
    (case body of
       None \<Rightarrow> Inl SyntaxError
     | Some (JObject ms) \<Rightarrow>
         (case foldl (member_tokenOrError l) (zero_tokenOrError, None) ms of
            (t, None) \<Rightarrow> Inr t
          | (t, Some e) \<Rightarrow> Inl e)
     | Some JNull \<Rightarrow> Inr zero_tokenOrError
     | Some v \<Rightarrow> Inl (UnmarshalTypeError []))"

subsection \<open>RequestDeviceCode\<close>

definition deviceGrantType :: string where
  "deviceGrantType = ''urn:ietf:params:oauth:grant-type:device_code''"

text \<open>
  The function makes one call of \<open>PostForm\<close>; \<open>r\<close> is the server's reply to it. The
  result is the returned pair: \<open>Inr\<close> the device code (with a nil error) or \<open>Inl\<close> the
  error (with a nil device code).
\<close>

definition RequestDeviceCode :: "lib \<Rightarrow> reply \<Rightarrow> Config \<Rightarrow> world \<Rightarrow> (error + DeviceCode) \<times> world" where
  "RequestDeviceCode l r config w =
    (let scopes = Join (Scopes (Config config)) '' '';
         form = [(''client_id'', [ClientID (Config config)]), (''scope'', [scopes])];
         url = CodeURL (DeviceEndpoint config)
     in case r of
          Failure dt err \<Rightarrow> (Inl (TransportError err), post url form dt w)
        | Response dt status body \<Rightarrow>
            (let w1 = post url form dt w in
             if status \<noteq> 200 then
               (Inl (Errorf (''request for device code authorisation returned status ''
                       @ format_int status @ '' ('' @ StatusText l status @ '')'')), w1)
             else
               (case decode_DeviceCode body of
                  Inl err \<Rightarrow> (Inl err, w1)
                | Inr dcr \<Rightarrow> (Inr dcr, w1))))"

subsection \<open>WaitForDeviceAuthorization\<close>

text \<open>
  The state the loop works on: the world, and the two structs the function receives by
  pointer. \<open>code.Interval\<close> is written in place, so the device code is part of the state
  and comes back with the result.
\<close>

record state =
  world :: world
  config :: Config
  code :: DeviceCode

datatype outcome =
    Returned "Token option"
  | Failed error
  | Panicked
  | StillPolling

text \<open>
  \<open>Returned tok\<close> is the return of \<open>(token.Token, nil)\<close>, where the pointer may be nil;
  \<open>Failed e\<close> the return of \<open>(nil, e)\<close>; \<open>Panicked\<close> a read through a nil pointer;
  \<open>StillPolling\<close> says that the replies of the script are used up and the loop is at
  its head again.
\<close>

definition tokenForm :: "Config \<Rightarrow> DeviceCode \<Rightarrow> (string \<times> string list) list" where
  "tokenForm cfg c =
    [(''client_secret'', [ClientSecret (Config cfg)]),
     (''client_id'', [ClientID (Config cfg)]),
     (''device_code'', [DeviceCode c]),
     (''grant_type'', [deviceGrantType])]"

definition sleepInterval :: "state \<Rightarrow> state" where
  "sleepInterval s = s\<lparr>world := sleep (Interval (code s) * Second) (world s)\<rparr>"

text \<open>
  Lines 116 to 120: \<open>token.Expiry\<close> is read through the embedded pointer, before
  \<open>token.ExpiresIn\<close> is looked at. \<open>None\<close> is the panic of a nil pointer.
\<close>

definition setExpiry :: "int \<Rightarrow> instant \<Rightarrow> tokenOrError \<Rightarrow> tokenOrError option" where
  "setExpiry status t_now token =
    (if status \<noteq> 400 then
       (case Token token of
          None \<Rightarrow> None
        | Some tok \<Rightarrow>
            if Expiry tok = 0 \<and> TokExpiresIn token \<noteq> 0 then
              Some (token\<lparr>Token := Some (tok\<lparr>Expiry := t_now + sint (TokExpiresIn token * Second)\<rparr>)\<rparr>)
            else Some token)
     else Some token)"

text \<open>The state after the \<open>PostForm\<close> of one poll, answered after \<open>dt\<close> nanoseconds.\<close>

definition polled :: "nat \<Rightarrow> state \<Rightarrow> state" where
  "polled dt s =
    s\<lparr>world := post (TokenURL (Endpoint (Config (config s)))) (tokenForm (config s) (code s)) dt (world s)\<rparr>"

text \<open>
  One pass through the body of the \<open>for\<close> loop, on the reply \<open>r\<close> to its \<open>PostForm\<close>.
  The first component is \<open>None\<close> when the pass ends at \<open>continue\<close> or at the bottom of
  the loop, and the outcome when it returns or panics.
\<close>

definition poll :: "lib \<Rightarrow> reply \<Rightarrow> state \<Rightarrow> outcome option \<times> state" where
  "poll l r s =
    (case r of
       Failure dt err \<Rightarrow> (Some (Failed (TransportError err)), polled dt s)
     | Response dt status body \<Rightarrow>
         (let s1 = polled dt s in
          if status = 428 then (None, sleepInterval s1)
          else if status \<noteq> 200 \<and> status \<noteq> 400 then
            (Some (Failed (Errorf (''HTTP error '' @ format_int status @ '' (''
                     @ StatusText l status @ '') when polling for OAuth token''))), s1)
          else
            (case decode_tokenOrError l body of
               Inl err \<Rightarrow> (Some (Failed err), s1)
             | Inr token0 \<Rightarrow>
                 (case setExpiry status (now (world s1)) token0 of
                    None \<Rightarrow> (Some Panicked, s1)
                  | Some token \<Rightarrow>
                      if Error token = [] then (Some (Returned (Token token)), s1)
                      else if Error token = ''authorization_pending'' then (None, sleepInterval s1)
                      else if Error token = ''slow_down'' then
                        (None, sleepInterval (s1\<lparr>code := (code s1)\<lparr>Interval := Interval (code s1) * 2\<rparr>\<rparr>))
                      else if Error token = ''access_denied'' then (Some (Failed ErrAccessDenied), s1)
                      else (Some (Failed (Errorf (''authorization failed: '' @ Error token))), s1)))))"

text \<open>
  The loop has no exit of its own. It is run on a finite script of replies: the script
  is the fuel, and \<open>StillPolling\<close> is the answer when it runs out.
\<close>

fun WaitForDeviceAuthorization :: "lib \<Rightarrow> reply list \<Rightarrow> state \<Rightarrow> outcome \<times> state" where
  "WaitForDeviceAuthorization l [] s = (StillPolling, s)"
| "WaitForDeviceAuthorization l (r # rs) s =
    (case poll l r s of
       (Some out, s') \<Rightarrow> (out, s')
     | (None, s') \<Rightarrow> WaitForDeviceAuthorization l rs s')"

subsection \<open>A provider and a client to run the functions on\<close>

text \<open>
  The entries of \<open>http.StatusText\<close> for the status codes used below, a parser that
  accepts no string, the configuration \<open>cmd/main.go\<close> builds, and the device code of
  the scenario in the specification.
\<close>

definition idpLib :: lib where
  "idpLib =
    \<lparr>StatusText = (\<lambda>c. if c = 200 then ''OK'' else if c = 400 then ''Bad Request''
        else if c = 428 then ''Precondition Required''
        else if c = 500 then ''Internal Server Error'' else []),
     ParseTime = (\<lambda>s. None)\<rparr>"

definition idpConfig :: Config where
  "idpConfig =
    \<lparr>Config = \<lparr>ClientID = ''cli'', ClientSecret = [],
        Endpoint = \<lparr>AuthURL = ''https://idp/auth'', TokenURL = ''https://idp/token''\<rparr>,
        RedirectURL = [], Scopes = [''openid'', ''profile'', ''email'']\<rparr>,
     DeviceEndpoint = \<lparr>CodeURL = ''https://idp/auth/device''\<rparr>\<rparr>"

definition d1Code :: DeviceCode where
  "d1Code =
    \<lparr>DeviceCode = ''D1'', UserCode = ''ABCD-EFGH'', VerificationURL = ''https://idp/device'',
     VerificationURLComplete = ''https://idp/device?code=ABCD-EFGH'', ExpiresIn = 600,
     Interval = 5\<rparr>"

definition w0 :: world where
  "w0 = \<lparr>now = 1000, trace = []\<rparr>"

definition s0 :: state where
  "s0 = \<lparr>world = w0, config = idpConfig, code = d1Code\<rparr>"

definition errorBody :: "string \<Rightarrow> json option" where
  "errorBody e = Some (JObject [(''error'', JString e)])"

definition tok123Body :: "json option" where
  "tok123Body = Some (JObject [(''access_token'', JString ''tok123''),
     (''token_type'', JString ''Bearer''), (''expires_in'', JInt 3600)])"

definition d1Body :: "json option" where
  "d1Body = Some (JObject [(''device_code'', JString ''D1''), (''user_code'', JString ''ABCD-EFGH''),
     (''verification_uri'', JString ''https://idp/device''),
     (''verification_uri_complete'', JString ''https://idp/device?code=ABCD-EFGH''),
     (''expires_in'', JInt 600), (''interval'', JInt 5)])"

definition pollEvent :: event where
  "pollEvent = PostForm ''https://idp/token''
     [(''client_secret'', [[]]), (''client_id'', [''cli'']), (''device_code'', [''D1'']),
      (''grant_type'', [''urn:ietf:params:oauth:grant-type:device_code''])]"

definition longLivedBody :: "json option" where
  "longLivedBody = Some (JObject [(''access_token'', JString ''tok123''),
     (''expires_in'', JInt 9223372037)])"

subsection \<open>Notions used in the statements\<close>







text \<open>
  A decoded reply is readable when lines 116 to 120 get through it: the status is 400,
  which skips the read of \<open>token.Expiry\<close>, or the status is 200 and the body held at least
  one key of \<open>oauth2.Token\<close>, so that the embedded pointer is set.
\<close>

definition readable :: "int \<Rightarrow> tokenOrError \<Rightarrow> bool" where
  "readable status t \<longleftrightarrow> status = 400 \<or> (status = 200 \<and> Token t \<noteq> None)"

definition pendingReply :: "lib \<Rightarrow> reply \<Rightarrow> bool" where
  "pendingReply l r =
    (case r of
       Failure dt e \<Rightarrow> False
     | Response dt status body \<Rightarrow>
         (case decode_tokenOrError l body of
            Inl e \<Rightarrow> False
          | Inr t \<Rightarrow> readable status t \<and> Error t = ''authorization_pending''))"

section \<open>Properties\<close>

subsection \<open>One poll\<close>

lemma polled_frame [simp]:
  "config (polled dt s) = config s" "code (polled dt s) = code s"
  by (simp_all add: polled_def)

lemma sleepInterval_frame [simp]:
  "config (sleepInterval s) = config s" "code (sleepInterval s) = code s"
  by (simp_all add: sleepInterval_def)

lemma polled_trace:
  "trace (world (polled dt s)) =
     trace (world s) @ [PostForm (TokenURL (Endpoint (Config (config s)))) (tokenForm (config s) (code s))]"
  by (simp add: polled_def post_def)

lemma polled_now: "now (world (polled dt s)) = now (world s) + int dt"
  by (simp add: polled_def post_def)

lemma sleepInterval_trace:
  "trace (world (sleepInterval s)) = trace (world s) @ [Sleep (Interval (code s) * Second)]"
  by (simp add: sleepInterval_def sleep_def)

lemma s0_polled: "polled dt s0 = s0\<lparr>world := \<lparr>now = 1000 + int dt, trace = [pollEvent]\<rparr>\<rparr>"
  by (simp add: polled_def post_def s0_def w0_def idpConfig_def d1Code_def tokenForm_def
      deviceGrantType_def pollEvent_def)

lemma format_int_500: "format_int 500 = ''500''"
  by (simp add: format_int_def decimal.simps)

lemma poll_frame:
  "config (snd (poll l r s)) = config s \<and>
   DeviceCode (code (snd (poll l r s))) = DeviceCode (code s) \<and>
   UserCode (code (snd (poll l r s))) = UserCode (code s) \<and>
   VerificationURL (code (snd (poll l r s))) = VerificationURL (code s) \<and>
   VerificationURLComplete (code (snd (poll l r s))) = VerificationURLComplete (code s) \<and>
   ExpiresIn (code (snd (poll l r s))) = ExpiresIn (code s)"
  by (cases r) (simp_all add: poll_def Let_def split: sum.split option.split)

subsection \<open>Statuses other than 200 and 400\<close>

text \<open>
  Claim C1, as amended. A poll answered with status 428 sleeps for
  \<open>code.Interval\<close> seconds and goes back to the head of the loop, and the body of
  the response is never decoded (the equation holds for every body, also for one that
  holds no JSON). A poll answered with any other status that is neither 200 nor 400 ends
  the call at once: it returns an error built from the status code and its reason phrase,
  without sleeping and without decoding the body.
\<close>

theorem C1_unexpected_status:
  assumes "status \<noteq> 200" and "status \<noteq> 400"
  shows "WaitForDeviceAuthorization l (Response dt status body # rs) s =
    (if status = 428 then WaitForDeviceAuthorization l rs (sleepInterval (polled dt s))
     else (Failed (Errorf (''HTTP error '' @ format_int status @ '' ('' @ StatusText l status
             @ '') when polling for OAuth token'')), polled dt s))
    \<and> trace (world (sleepInterval (polled dt s))) =
        trace (world s) @
          [PostForm (TokenURL (Endpoint (Config (config s)))) (tokenForm (config s) (code s)),
           Sleep (Interval (code s) * Second)]"
  using assms by (simp add: poll_def sleepInterval_trace polled_trace)

theorem C1_unexpected_status_witness:
  "(428::int) \<noteq> 200 \<and> (428::int) \<noteq> 400 \<and> (500::int) \<noteq> 200 \<and> (500::int) \<noteq> 400 \<and>
   WaitForDeviceAuthorization idpLib [Response 0 428 None, Response 0 500 None] s0 =
     (Failed (Errorf ''HTTP error 500 (Internal Server Error) when polling for OAuth token''),
      s0\<lparr>world := \<lparr>now = 5000001000, trace = [pollEvent, Sleep 5000000000, pollEvent]\<rparr>\<rparr>)"
proof -
  have a: "(428::int) \<noteq> 200" and b: "(428::int) \<noteq> 400"
    and c: "(500::int) \<noteq> 200" and d: "(500::int) \<noteq> 400"
    by simp_all
  have e: "sleepInterval (polled 0 s0) =
      s0\<lparr>world := \<lparr>now = 5000001000, trace = [pollEvent, Sleep 5000000000]\<rparr>\<rparr>"
    unfolding s0_polled by (simp add: sleepInterval_def sleep_def s0_def d1Code_def Second_def)
  have f: "polled 0 (s0\<lparr>world := \<lparr>now = 5000001000, trace = [pollEvent, Sleep 5000000000]\<rparr>\<rparr>) =
      s0\<lparr>world := \<lparr>now = 5000001000, trace = [pollEvent, Sleep 5000000000, pollEvent]\<rparr>\<rparr>"
    by (simp add: polled_def post_def s0_def w0_def idpConfig_def d1Code_def tokenForm_def
        deviceGrantType_def pollEvent_def)
  show ?thesis
    using C1_unexpected_status [OF a b, of idpLib 0 None "[Response 0 500 None]" s0]
      C1_unexpected_status [OF c d, of idpLib 0 None "[]"]
    by (simp add: e f format_int_500 idpLib_def)
qed

text \<open>
  Claim C1 as it is written fails: a poll answered with status 500 does not sleep and
  does not stay in the loop. The call returns the HTTP error after one request, and the
  next reply of the server is never asked for.
\<close>

theorem C1_counterexample:
  "fst (WaitForDeviceAuthorization idpLib [Response 0 500 None, Response 0 200 tok123Body] s0) =
     Failed (Errorf ''HTTP error 500 (Internal Server Error) when polling for OAuth token'')
   \<and> trace (world (snd (WaitForDeviceAuthorization idpLib
         [Response 0 500 None, Response 0 200 tok123Body] s0))) = [pollEvent]"
  by (simp add: poll_def s0_polled idpLib_def format_int_500)

subsection \<open>The device code request\<close>

text \<open>
  Claim C8. When the device authorization endpoint answers with a status other than
  200, \<open>RequestDeviceCode\<close> returns an error whose text holds the status code and its
  reason phrase, returns no device code, and has sent exactly one request.
\<close>

theorem C8_non_200:
  assumes "status \<noteq> 200"
  shows "RequestDeviceCode l (Response dt status body) cfg w =
    (Inl (Errorf (''request for device code authorisation returned status ''
            @ format_int status @ '' ('' @ StatusText l status @ '')'')),
     w\<lparr>now := now w + int dt,
       trace := trace w @ [PostForm (CodeURL (DeviceEndpoint cfg))
          [(''client_id'', [ClientID (Config cfg)]),
           (''scope'', [Join (Scopes (Config cfg)) '' ''])]]\<rparr>)"
  using assms by (simp add: RequestDeviceCode_def post_def)

theorem C8_non_200_witness:
  "(500::int) \<noteq> 200 \<and>
   RequestDeviceCode idpLib (Response 0 500 d1Body) idpConfig w0 =
    (Inl (Errorf
       ''request for device code authorisation returned status 500 (Internal Server Error)''),
     \<lparr>now = 1000, trace = [PostForm ''https://idp/auth/device''
        [(''client_id'', [''cli'']), (''scope'', [''openid profile email''])]]\<rparr>)"
proof -
  have a: "(500::int) \<noteq> 200" by simp
  show ?thesis
    using C8_non_200 [OF a, of idpLib 0 d1Body idpConfig w0]
    by (simp add: format_int_500 idpLib_def idpConfig_def w0_def)
qed

subsection \<open>What the poller writes\<close>

text \<open>
  Claim C10. Whatever the server replies and however the call ends,
  \<open>WaitForDeviceAuthorization\<close> leaves the configuration as it was, and of the device
  code it changes at most the field \<open>Interval\<close>: the fields \<open>DeviceCode\<close>, \<open>UserCode\<close>,
  \<open>VerificationURL\<close>, \<open>VerificationURLComplete\<close> and \<open>ExpiresIn\<close> keep their values.
\<close>

theorem C10_frame:
  "config (snd (WaitForDeviceAuthorization l rs s)) = config s \<and>
   DeviceCode (code (snd (WaitForDeviceAuthorization l rs s))) = DeviceCode (code s) \<and>
   UserCode (code (snd (WaitForDeviceAuthorization l rs s))) = UserCode (code s) \<and>
   VerificationURL (code (snd (WaitForDeviceAuthorization l rs s))) = VerificationURL (code s) \<and>
   VerificationURLComplete (code (snd (WaitForDeviceAuthorization l rs s))) =
     VerificationURLComplete (code s) \<and>
   ExpiresIn (code (snd (WaitForDeviceAuthorization l rs s))) = ExpiresIn (code s)"
proof (induction rs arbitrary: s)
  case Nil
  show ?case by simp
next
  case (Cons r rs)
  obtain out s' where p: "poll l r s = (out, s')"
    by (cases "poll l r s")
  from poll_frame [of l r s] p
  have f: "config s' = config s" "DeviceCode (code s') = DeviceCode (code s)"
    "UserCode (code s') = UserCode (code s)" "VerificationURL (code s') = VerificationURL (code s)"
    "VerificationURLComplete (code s') = VerificationURLComplete (code s)"
    "ExpiresIn (code s') = ExpiresIn (code s)"
    by simp_all
  show ?case
  proof (cases out)
    case None
    with p Cons.IH [of s'] f show ?thesis by simp
  next
    case (Some a)
    with p f show ?thesis by simp
  qed
qed

subsection \<open>Keys\<close>

lemma keyIs_fold: "keyIs name k \<longleftrightarrow> foldName k = foldName name"
  by (auto simp: keyIs_def)

lemma foldName_tags:
  "foldName ''device_code'' = ''DEVICE_CODE''"
  "foldName ''user_code'' = ''USER_CODE''"
  "foldName ''verification_uri'' = ''VERIFICATION_URI''"
  "foldName ''verification_uri_complete'' = ''VERIFICATION_URI_COMPLETE''"
  "foldName ''expires_in'' = ''EXPIRES_IN''"
  "foldName ''interval'' = ''INTERVAL''"
  "foldName ''access_token'' = ''ACCESS_TOKEN''"
  "foldName ''token_type'' = ''TOKEN_TYPE''"
  "foldName ''refresh_token'' = ''REFRESH_TOKEN''"
  "foldName ''expiry'' = ''EXPIRY''"
  "foldName ''error'' = ''ERROR''"
  "foldName ''error_description'' = ''ERROR_DESCRIPTION''"
  by (simp_all add: foldName.simps upper_def)

text \<open>Keys in another case, and with the two letters outside ASCII, name the same fields.\<close>

lemma foldName_variants:
  "keyIs ''error'' ''ERROR''"
  "keyIs ''interval'' ''Interval''"
  "keyIs ''device_code'' ''DEVICE_CODE''"
  "keyIs ''token_type'' (''to'' @ [CHR 0xE2, CHR 0x84, CHR 0xAA] @ ''en_type'')"
  "keyIs ''expires_in'' (''expire'' @ [CHR 0xC5, CHR 0xBF] @ ''_in'')"
  "\<not> keyIs ''error'' ''errors''"
  "\<not> keyIs ''expires_in'' ''expires-in''"
  by (simp_all add: keyIs_def foldName.simps upper_def)

subsection \<open>Decoding a device code\<close>
















text \<open>A value of the wrong kind under a key in another case is a type error, as it is
  under the key as written.\<close>

lemma RequestDeviceCode_type_error:
  "fst (RequestDeviceCode idpLib
     (Response 0 200 (Some (JObject [(''device_code'', JString ''D1''), (''Interval'', JString ''soon'')])))
     idpConfig w0) = Inl (UnmarshalTypeError ''Interval'')"
  by (simp add: RequestDeviceCode_def decode_DeviceCode_def member_DeviceCode_def keyIs_def
      foldName.simps upper_def zero_DeviceCode_def saveError_def)

subsection \<open>Decoding a poll response\<close>

lemma decode_errorBody:
  "decode_tokenOrError l (errorBody e) =
     Inr \<lparr>Token = None, Error = e, ErrorDescription = [], TokExpiresIn = 0\<rparr>"
  by (simp add: decode_tokenOrError_def errorBody_def member_tokenOrError_def zero_tokenOrError_def
      keyIs_fold foldName_tags)

lemma decode_tok123Body:
  "decode_tokenOrError l tok123Body =
     Inr \<lparr>Token = Some \<lparr>AccessToken = ''tok123'', TokenType = ''Bearer'', RefreshToken = [],
            Expiry = 0\<rparr>,
          Error = [], ErrorDescription = [], TokExpiresIn = 3600\<rparr>"
  by (simp add: decode_tokenOrError_def tok123Body_def member_tokenOrError_def zero_tokenOrError_def
      alloc_Token_def zero_Token_def fits_int64_def keyIs_fold foldName_tags)

lemma decode_longLivedBody:
  "decode_tokenOrError l longLivedBody =
     Inr \<lparr>Token = Some \<lparr>AccessToken = ''tok123'', TokenType = [], RefreshToken = [], Expiry = 0\<rparr>,
          Error = [], ErrorDescription = [], TokExpiresIn = 9223372037\<rparr>"
  by (simp add: decode_tokenOrError_def longLivedBody_def member_tokenOrError_def
      zero_tokenOrError_def alloc_Token_def zero_Token_def fits_int64_def keyIs_fold foldName_tags)

text \<open>Keys in another case reach the same fields, and allocate the embedded token.\<close>

lemma decode_case_variants:
  "decode_tokenOrError l (Some (JObject [(''ERROR'', JString ''access_denied'')])) =
     Inr \<lparr>Token = None, Error = ''access_denied'', ErrorDescription = [], TokExpiresIn = 0\<rparr>"
  "decode_tokenOrError l (Some (JObject [(''access_token'', JString ''a''), (''EXPIRES_IN'', JInt 3600)])) =
     Inr \<lparr>Token = Some \<lparr>AccessToken = ''a'', TokenType = [], RefreshToken = [], Expiry = 0\<rparr>,
          Error = [], ErrorDescription = [], TokExpiresIn = 3600\<rparr>"
  "decode_tokenOrError l (Some (JObject [(''Access_Token'', JString ''a'')])) =
     Inr \<lparr>Token = Some \<lparr>AccessToken = ''a'', TokenType = [], RefreshToken = [], Expiry = 0\<rparr>,
          Error = [], ErrorDescription = [], TokExpiresIn = 0\<rparr>"
  by (simp_all add: decode_tokenOrError_def member_tokenOrError_def zero_tokenOrError_def
      alloc_Token_def zero_Token_def fits_int64_def keyIs_def foldName.simps upper_def)

lemma setExpiry_400 [simp]: "setExpiry 400 n t = Some t"
  by (simp add: setExpiry_def)

lemma setExpiry_Error: "setExpiry st n t = Some t' \<Longrightarrow> Error t' = Error t"
  by (auto simp: setExpiry_def split: if_splits option.splits)

lemma setExpiry_readable:
  assumes "readable st t"
  shows "\<exists>t'. setExpiry st n t = Some t'"
  using assms by (auto simp: setExpiry_def readable_def)

lemma Second_product:
  assumes "fits_int64 (sint e * 1000000000)"
  shows "sint (e * Second) = sint e * 1000000000"
proof -
  have s: "sint Second = 1000000000"
    by (simp add: Second_def)
  have "sint (e * Second) = signed_take_bit 63 (sint e * sint Second)"
    by (simp add: sint_word_ariths)
  also have "\<dots> = signed_take_bit 63 (sint e * 1000000000)"
    by (simp only: s)
  also have "\<dots> = sint e * 1000000000"
    using assms unfolding fits_int64_def by (intro signed_take_bit_int_eq_self) simp_all
  finally show ?thesis .
qed

subsection \<open>Replies with an error discriminant\<close>

text \<open>
  What one pass of the loop does on a readable reply that names an error: the four
  branches of the \<open>switch\<close>.
\<close>

lemma poll_error_reply:
  assumes "decode_tokenOrError l body = Inr t" and "readable status t" and "Error t \<noteq> []"
  shows "poll l (Response dt status body) s =
    (if Error t = ''authorization_pending'' then (None, sleepInterval (polled dt s))
     else if Error t = ''slow_down'' then
       (None, sleepInterval ((polled dt s)\<lparr>code := (code s)\<lparr>Interval := Interval (code s) * 2\<rparr>\<rparr>))
     else if Error t = ''access_denied'' then (Some (Failed ErrAccessDenied), polled dt s)
     else (Some (Failed (Errorf (''authorization failed: '' @ Error t))), polled dt s))"
proof -
  from setExpiry_readable [OF assms(2)]
  obtain t' where t': "setExpiry status (now (world (polled dt s))) t = Some t'"
    by blast
  have e: "Error t' = Error t"
    using t' by (rule setExpiry_Error)
  from assms(2) have st: "status \<noteq> 428" "status = 200 \<or> status = 400"
    by (auto simp: readable_def)
  show ?thesis
    using st assms(1,3) t' e by (auto simp: poll_def Let_def)
qed

lemma pending_continues:
  assumes "decode_tokenOrError l body = Inr t" and "readable status t"
    and "Error t = ''authorization_pending''"
  shows "WaitForDeviceAuthorization l (Response dt status body # rs) s =
     WaitForDeviceAuthorization l rs (sleepInterval (polled dt s))"
  using poll_error_reply [OF assms(1,2)] assms(3) by simp

lemma slow_down_doubles:
  assumes "decode_tokenOrError l body = Inr t" and "readable status t" and "Error t = ''slow_down''"
  shows "WaitForDeviceAuthorization l (Response dt status body # rs) s =
     WaitForDeviceAuthorization l rs
       (sleepInterval ((polled dt s)\<lparr>code := (code s)\<lparr>Interval := Interval (code s) * 2\<rparr>\<rparr>))"
    and "trace (world (sleepInterval
            ((polled dt s)\<lparr>code := (code s)\<lparr>Interval := Interval (code s) * 2\<rparr>\<rparr>))) =
      trace (world (polled dt s)) @ [Sleep (Interval (code s) * 2 * Second)]"
    and "code (sleepInterval ((polled dt s)\<lparr>code := (code s)\<lparr>Interval := Interval (code s) * 2\<rparr>\<rparr>)) =
      (code s)\<lparr>Interval := Interval (code s) * 2\<rparr>"
  using poll_error_reply [OF assms(1,2)] assms(3) by (simp_all add: sleepInterval_trace)

lemma access_denied_returns:
  assumes "decode_tokenOrError l body = Inr t" and "readable status t"
    and "Error t = ''access_denied''"
  shows "WaitForDeviceAuthorization l (Response dt status body # rs) s =
     (Failed ErrAccessDenied, polled dt s)"
  using poll_error_reply [OF assms(1,2)] assms(3) by simp

lemma other_error_returns:
  assumes "decode_tokenOrError l body = Inr t" and "readable status t"
    and "Error t \<noteq> []" "Error t \<noteq> ''authorization_pending''" "Error t \<noteq> ''slow_down''"
      "Error t \<noteq> ''access_denied''"
  shows "WaitForDeviceAuthorization l (Response dt status body # rs) s =
     (Failed (Errorf (''authorization failed: '' @ Error t)), polled dt s)"
  using poll_error_reply [OF assms(1,2,3)] assms(4-) by simp

text \<open>
  A run of readable \<open>authorization_pending\<close> replies: each one costs a request and a sleep
  of \<open>code.Interval\<close> seconds, and leaves the configuration and the device code alone.
\<close>

lemma pending_run:
  assumes "list_all (pendingReply l) ps"
  shows "\<exists>s'. WaitForDeviceAuthorization l (ps @ rs) s = WaitForDeviceAuthorization l rs s'
     \<and> config s' = config s \<and> code s' = code s
     \<and> trace (world s') = trace (world s) @ concat (replicate (length ps)
          [PostForm (TokenURL (Endpoint (Config (config s)))) (tokenForm (config s) (code s)),
           Sleep (Interval (code s) * Second)])"
  using assms
proof (induction ps arbitrary: s)
  case Nil
  show ?case by (rule exI [of _ s]) simp
next
  case (Cons p ps)
  from Cons.prems have p: "pendingReply l p" and ps: "list_all (pendingReply l) ps"
    by simp_all
  from p obtain dt status body t where r: "p = Response dt status body"
    and d: "decode_tokenOrError l body = Inr t" and rd: "readable status t"
    and e: "Error t = ''authorization_pending''"
    by (auto simp: pendingReply_def split: reply.splits sum.splits)
  let ?s1 = "sleepInterval (polled dt s)"
  from Cons.IH [OF ps, of ?s1] obtain s' where
    run: "WaitForDeviceAuthorization l (ps @ rs) ?s1 = WaitForDeviceAuthorization l rs s'"
    and fr: "config s' = config ?s1" "code s' = code ?s1"
    and tr: "trace (world s') = trace (world ?s1) @ concat (replicate (length ps)
          [PostForm (TokenURL (Endpoint (Config (config ?s1)))) (tokenForm (config ?s1) (code ?s1)),
           Sleep (Interval (code ?s1) * Second)])"
    by blast
  have "WaitForDeviceAuthorization l ((p # ps) @ rs) s = WaitForDeviceAuthorization l rs s'"
    using pending_continues [OF d rd e, of dt "ps @ rs" s] run by (simp add: r)
  moreover have "config s' = config s" "code s' = code s"
    using fr by simp_all
  moreover have "trace (world s') = trace (world s) @ concat (replicate (length (p # ps))
          [PostForm (TokenURL (Endpoint (Config (config s)))) (tokenForm (config s) (code s)),
           Sleep (Interval (code s) * Second)])"
    using tr by (simp add: sleepInterval_trace polled_trace)
  ultimately show ?case by blast
qed

text \<open>A token at status 200, when the body set the embedded pointer.\<close>

lemma token_200_returns:
  assumes "decode_tokenOrError l body = Inr t" and "Error t = []" and "Token t = Some tok"
  shows "WaitForDeviceAuthorization l (Response dt 200 body # rs) s =
     (Returned (Some (if Expiry tok = 0 \<and> TokExpiresIn t \<noteq> 0
        then tok\<lparr>Expiry := now (world s) + int dt + sint (TokExpiresIn t * Second)\<rparr>
        else tok)), polled dt s)"
  using assms by (auto simp: poll_def setExpiry_def polled_now)

text \<open>
  The same on keys written in another case: \<open>ERROR\<close> is the error discriminant, and
  \<open>EXPIRES_IN\<close> gives the lifetime the expiry is computed from.
\<close>

lemma case_variant_replies:
  "WaitForDeviceAuthorization l
     [Response 0 400 (Some (JObject [(''ERROR'', JString ''access_denied'')]))] s =
   (Failed ErrAccessDenied, polled 0 s)"
  "WaitForDeviceAuthorization l
     [Response 0 200 (Some (JObject [(''access_token'', JString ''a''), (''EXPIRES_IN'', JInt 3600)]))] s =
   (Returned (Some \<lparr>AccessToken = ''a'', TokenType = [], RefreshToken = [],
      Expiry = now (world s) + 3600000000000\<rparr>), polled 0 s)"
proof -
  show "WaitForDeviceAuthorization l
     [Response 0 400 (Some (JObject [(''ERROR'', JString ''access_denied'')]))] s =
   (Failed ErrAccessDenied, polled 0 s)"
    by (rule access_denied_returns [OF decode_case_variants(1)]) (simp_all add: readable_def)
  show "WaitForDeviceAuthorization l
     [Response 0 200 (Some (JObject [(''access_token'', JString ''a''), (''EXPIRES_IN'', JInt 3600)]))] s =
   (Returned (Some \<lparr>AccessToken = ''a'', TokenType = [], RefreshToken = [],
      Expiry = now (world s) + 3600000000000\<rparr>), polled 0 s)"
    using token_200_returns [OF decode_case_variants(2), where dt = 0 and rs = "[]" and s = s]
    by (simp add: Second_def)
qed

text \<open>
  \<open>N\<close> readable \<open>authorization_pending\<close> replies and then a token at status 200: the
  token of the last reply is returned after \<open>N + 1\<close> requests, with a sleep of
  \<open>code.Interval\<close> seconds after each of the first \<open>N\<close>.
\<close>

lemma pendings_then_token:
  assumes "list_all (pendingReply l) ps"
    and "decode_tokenOrError l body = Inr t" and "Error t = []" and "Token t = Some tok"
  shows "\<exists>tok' s'. WaitForDeviceAuthorization l (ps @ [Response dt 200 body]) s = (Returned (Some tok'), s')
     \<and> AccessToken tok' = AccessToken tok \<and> TokenType tok' = TokenType tok
     \<and> RefreshToken tok' = RefreshToken tok
     \<and> code s' = code s
     \<and> trace (world s') = trace (world s) @ concat (replicate (length ps)
          [PostForm (TokenURL (Endpoint (Config (config s)))) (tokenForm (config s) (code s)),
           Sleep (Interval (code s) * Second)])
        @ [PostForm (TokenURL (Endpoint (Config (config s)))) (tokenForm (config s) (code s))]"
proof -
  from pending_run [OF assms(1), of "[Response dt 200 body]" s] obtain s1 where
    run: "WaitForDeviceAuthorization l (ps @ [Response dt 200 body]) s =
        WaitForDeviceAuthorization l [Response dt 200 body] s1"
    and fr: "config s1 = config s" "code s1 = code s"
    and tr: "trace (world s1) = trace (world s) @ concat (replicate (length ps)
          [PostForm (TokenURL (Endpoint (Config (config s)))) (tokenForm (config s) (code s)),
           Sleep (Interval (code s) * Second)])"
    by blast
  let ?tok' = "if Expiry tok = 0 \<and> TokExpiresIn t \<noteq> 0
        then tok\<lparr>Expiry := now (world s1) + int dt + sint (TokExpiresIn t * Second)\<rparr>
        else tok"
  have ret: "WaitForDeviceAuthorization l (ps @ [Response dt 200 body]) s =
      (Returned (Some ?tok'), polled dt s1)"
    unfolding run by (rule token_200_returns [OF assms(2-)])
  have t1: "AccessToken ?tok' = AccessToken tok" "TokenType ?tok' = TokenType tok"
    "RefreshToken ?tok' = RefreshToken tok"
    by simp_all
  have t2: "code (polled dt s1) = code s"
    using fr by simp
  have t3: "trace (world (polled dt s1)) = trace (world s) @ concat (replicate (length ps)
          [PostForm (TokenURL (Endpoint (Config (config s)))) (tokenForm (config s) (code s)),
           Sleep (Interval (code s) * Second)])
        @ [PostForm (TokenURL (Endpoint (Config (config s)))) (tokenForm (config s) (code s))]"
    using fr tr by (simp add: polled_trace)
  from ret t1 t2 t3 show ?thesis by blast
qed

subsection \<open>Replies that name an error at status 200\<close>

text \<open>
  Claim C3. The claim fails on the code. A body that holds only the key \<open>error\<close>
  decodes without an error and leaves the embedded \<open>*oauth2.Token\<close> nil; at status 200
  line 117 reads \<open>token.Expiry\<close> through it, and the pass of the loop panics.
\<close>

theorem C3_nil_token_read:
  "decode_tokenOrError idpLib (errorBody ''authorization_pending'') =
     Inr \<lparr>Token = None, Error = ''authorization_pending'', ErrorDescription = [], TokExpiresIn = 0\<rparr>
   \<and> setExpiry 200 1000 \<lparr>Token = None, Error = ''authorization_pending'', ErrorDescription = [],
         TokExpiresIn = 0\<rparr> = None
   \<and> poll idpLib (Response 0 200 (errorBody ''authorization_pending'')) s0 =
       (Some Panicked, polled 0 s0)"
  by (simp add: decode_errorBody setExpiry_def poll_def)

text \<open>
  Claim C2. The claim fails on the scenario of the specification: the first reply has
  status 200 and the body \<open>{"error":"authorization_pending"}\<close>, the second one holds the
  token. The call panics in the first pass, after one request and without a sleep, and
  returns no token. (With status 400 on the pending replies the claim holds:
  \<open>pendings_then_token\<close>.)
\<close>

theorem C2_scenario_panics:
  "WaitForDeviceAuthorization idpLib
     [Response 0 200 (errorBody ''authorization_pending''), Response 0 200 tok123Body] s0 =
   (Panicked, s0\<lparr>world := \<lparr>now = 1000, trace = [pollEvent]\<rparr>\<rparr>)"
  by (simp add: poll_def decode_errorBody setExpiry_def s0_polled)

text \<open>
  Claim C5. The claim fails for a \<open>slow_down\<close> reply at status 200: the call panics
  before it reaches the \<open>switch\<close>, the interval is still 5, and there is no next poll.
  (For a readable reply the claim holds: \<open>slow_down_doubles\<close>.)
\<close>

theorem C5_slow_down_200_panics:
  "WaitForDeviceAuthorization idpLib
     [Response 0 200 (errorBody ''slow_down''), Response 0 200 tok123Body] s0 =
   (Panicked, s0\<lparr>world := \<lparr>now = 1000, trace = [pollEvent]\<rparr>\<rparr>)
   \<and> Interval (code (snd (WaitForDeviceAuthorization idpLib
     [Response 0 200 (errorBody ''slow_down''), Response 0 200 tok123Body] s0))) = 5"
  by (simp add: poll_def decode_errorBody setExpiry_def s0_polled) (simp add: s0_def d1Code_def)

text \<open>
  Claim C6. The claim fails for an \<open>access_denied\<close> reply at status 200: the call panics
  and does not return \<open>ErrAccessDenied\<close>. (For a readable reply the claim holds:
  \<open>access_denied_returns\<close>.)
\<close>

theorem C6_access_denied_200_panics:
  "fst (WaitForDeviceAuthorization idpLib [Response 0 200 (errorBody ''access_denied'')] s0) = Panicked
   \<and> fst (WaitForDeviceAuthorization idpLib [Response 0 200 (errorBody ''access_denied'')] s0)
       \<noteq> Failed ErrAccessDenied"
  by (simp add: poll_def decode_errorBody setExpiry_def)

text \<open>
  Claim C7. The claim fails for any other error at status 200, here \<open>expired_token\<close>: the
  call panics and returns no error that holds the discriminant. (For a readable reply
  the claim holds: \<open>other_error_returns\<close>.)
\<close>

theorem C7_other_error_200_panics:
  "fst (WaitForDeviceAuthorization idpLib [Response 0 200 (errorBody ''expired_token'')] s0) = Panicked
   \<and> fst (WaitForDeviceAuthorization idpLib [Response 0 200 (errorBody ''expired_token'')] s0)
       \<noteq> Failed (Errorf ''authorization failed: expired_token'')"
  by (simp add: poll_def decode_errorBody setExpiry_def)

subsection \<open>Replies without an error discriminant\<close>

text \<open>
  Claim C4, as amended. Let the body decode with an empty error discriminant. At
  status 400 the call returns the decoded token pointer as it is, its expiry untouched.
  At status 200, when the body set the token, the call returns that token; if its expiry
  is unset and \<open>expires_in\<close> is not zero, the expiry returned is the clock reading plus
  \<open>expires_in\<close> times 10^9 nanoseconds, the product taken in \<open>int64\<close>. The product is
  \<open>expires_in\<close> seconds whenever that many nanoseconds fit in \<open>int64\<close>.
\<close>

theorem C4_token_returned:
  assumes "decode_tokenOrError l body = Inr t" and "Error t = []"
  shows "(status = 400 \<longrightarrow>
           WaitForDeviceAuthorization l (Response dt status body # rs) s =
             (Returned (Token t), polled dt s))
       \<and> (status = 200 \<longrightarrow> Token t = Some tok \<longrightarrow>
           WaitForDeviceAuthorization l (Response dt status body # rs) s =
             (Returned (Some (if Expiry tok = 0 \<and> TokExpiresIn t \<noteq> 0
                then tok\<lparr>Expiry := now (world s) + int dt + sint (TokExpiresIn t * Second)\<rparr>
                else tok)), polled dt s))
       \<and> (fits_int64 (sint (TokExpiresIn t) * 1000000000) \<longrightarrow>
           sint (TokExpiresIn t * Second) = sint (TokExpiresIn t) * 1000000000)"
  using assms by (auto simp: poll_def setExpiry_def polled_now Second_product)

theorem C4_token_returned_witness:
  "decode_tokenOrError idpLib tok123Body =
     Inr \<lparr>Token = Some \<lparr>AccessToken = ''tok123'', TokenType = ''Bearer'', RefreshToken = [],
            Expiry = 0\<rparr>,
          Error = [], ErrorDescription = [], TokExpiresIn = 3600\<rparr>
   \<and> fits_int64 (sint (3600 :: int64) * 1000000000)
   \<and> WaitForDeviceAuthorization idpLib [Response 7 200 tok123Body] s0 =
       (Returned (Some \<lparr>AccessToken = ''tok123'', TokenType = ''Bearer'', RefreshToken = [],
          Expiry = 1007 + 3600 * 1000000000\<rparr>), polled 7 s0)
   \<and> WaitForDeviceAuthorization idpLib [Response 7 400 tok123Body] s0 =
       (Returned (Some \<lparr>AccessToken = ''tok123'', TokenType = ''Bearer'', RefreshToken = [],
          Expiry = 0\<rparr>), polled 7 s0)"
proof -
  let ?tok = "\<lparr>AccessToken = ''tok123'', TokenType = ''Bearer'', RefreshToken = [], Expiry = 0\<rparr>"
  let ?t = "\<lparr>Token = Some ?tok, Error = [], ErrorDescription = [], TokExpiresIn = 3600\<rparr>"
  have d: "decode_tokenOrError idpLib tok123Body = Inr ?t"
    by (rule decode_tok123Body)
  have e: "Error ?t = []"
    by simp
  have f: "fits_int64 (sint (3600 :: int64) * 1000000000)"
    by (simp add: fits_int64_def)
  show ?thesis
    using C4_token_returned [OF d e, of 200 7 "[]" s0 ?tok]
      C4_token_returned [OF d e, of 400 7 "[]" s0 ?tok] f
    by (simp add: d s0_def w0_def)
qed

text \<open>
  Claim C4 as it is written fails. At status 400 the body \<open>tok123Body\<close> decodes with an
  empty error discriminant, an unset expiry and \<open>expires_in = 3600\<close>, and the token comes
  back with its expiry still unset. At status 200 a body with \<open>expires_in = 9223372037\<close>
  gives an expiry 9223372036.709551616 seconds before the clock reading, not 9223372037
  seconds after it.
\<close>

theorem C4_counterexample:
  "decode_tokenOrError idpLib tok123Body =
     Inr \<lparr>Token = Some \<lparr>AccessToken = ''tok123'', TokenType = ''Bearer'', RefreshToken = [],
            Expiry = 0\<rparr>,
          Error = [], ErrorDescription = [], TokExpiresIn = 3600\<rparr>
   \<and> WaitForDeviceAuthorization idpLib [Response 0 400 tok123Body] s0 =
       (Returned (Some \<lparr>AccessToken = ''tok123'', TokenType = ''Bearer'', RefreshToken = [],
          Expiry = 0\<rparr>), s0\<lparr>world := \<lparr>now = 1000, trace = [pollEvent]\<rparr>\<rparr>)
   \<and> (0 :: int) \<noteq> 1000 + 3600 * 1000000000
   \<and> WaitForDeviceAuthorization idpLib [Response 0 200 longLivedBody] s0 =
       (Returned (Some \<lparr>AccessToken = ''tok123'', TokenType = [], RefreshToken = [],
          Expiry = 1000 - 9223372036709551616\<rparr>), s0\<lparr>world := \<lparr>now = 1000, trace = [pollEvent]\<rparr>\<rparr>)"
  by (simp add: decode_tok123Body decode_longLivedBody poll_def setExpiry_def s0_polled Second_def)

end
